theory Spec2Isabelle
  imports Complex_Main "HOL-Library.AList" "HOL-Library.Code_Target_Numeral"
begin

section \<open>JavaScript values and objects\<close>

text \<open>
  The values that flow through the movie application: numbers (the record ids, small
  integers produced by a literal and by \<^verbatim>\<open>++counter\<close>, modelled as \<open>int\<close>, which is exact
  for JavaScript numbers of magnitude below \<open>2 ^ 53\<close>), strings (titles, captured route
  parameters) and \<^verbatim>\<open>undefined\<close> (what reading a missing property gives).

  An object is its list of properties in insertion order. Reading a missing property
  gives \<^verbatim>\<open>undefined\<close>; assigning a property overwrites it in place or adds it at the end.
\<close>

datatype jsval = JNum int | JStr string | JUndefined

type_synonym obj = "(string \<times> jsval) list"

definition get_prop :: "obj \<Rightarrow> string \<Rightarrow> jsval" where
  "get_prop ob k = (case map_of ob k of Some v \<Rightarrow> v | None \<Rightarrow> JUndefined)"

definition set_prop :: "obj \<Rightarrow> string \<Rightarrow> jsval \<Rightarrow> obj" where
  "set_prop ob k v = AList.update k v ob"

datatype error = TypeError | ReferenceError string

subsection \<open>String to number conversion and the \<^verbatim>\<open>==\<close> operator\<close>

text \<open>
  \<^verbatim>\<open>number == string\<close> converts the string with the language's StringToNumber and compares
  the numbers. The conversion strips white space and line terminators from both ends,
  reads the empty string as 0, and accepts a signed decimal literal (digits, fraction,
  exponent), \<^verbatim>\<open>Infinity\<close>, and the unsigned \<^verbatim>\<open>0x\<close>, \<^verbatim>\<open>0o\<close>, \<^verbatim>\<open>0b\<close> literals; every other string is
  NaN. The value of the literal is then rounded to the nearest double, ties to even.

  Strings are UTF-8 byte sequences, so a white space character is recognised by its
  encoding: the six ASCII ones, U+00A0, U+1680, U+2000 to U+200A, U+2028, U+2029, U+202F,
  U+205F, U+3000 and U+FEFF. The byte A0 on its own, the Latin-1 form of the no-break
  space, is accepted as well; in a UTF-8 string it never stands at the start of a
  character, and stripping it from the end leaves a string that is no number either.
\<close>

definition StrWhiteSpaceChars :: "string list" where
  "StrWhiteSpaceChars =
     [[CHR 0x09], [CHR 0x0A], [CHR 0x0B], [CHR 0x0C], [CHR 0x0D], [CHR 0x20],
      [CHR 0xC2, CHR 0xA0], [CHR 0xA0],
      [CHR 0xE1, CHR 0x9A, CHR 0x80],
      [CHR 0xE2, CHR 0x80, CHR 0x80], [CHR 0xE2, CHR 0x80, CHR 0x81],
      [CHR 0xE2, CHR 0x80, CHR 0x82], [CHR 0xE2, CHR 0x80, CHR 0x83],
      [CHR 0xE2, CHR 0x80, CHR 0x84], [CHR 0xE2, CHR 0x80, CHR 0x85],
      [CHR 0xE2, CHR 0x80, CHR 0x86], [CHR 0xE2, CHR 0x80, CHR 0x87],
      [CHR 0xE2, CHR 0x80, CHR 0x88], [CHR 0xE2, CHR 0x80, CHR 0x89],
      [CHR 0xE2, CHR 0x80, CHR 0x8A],
      [CHR 0xE2, CHR 0x80, CHR 0xA8], [CHR 0xE2, CHR 0x80, CHR 0xA9],
      [CHR 0xE2, CHR 0x80, CHR 0xAF],
      [CHR 0xE2, CHR 0x81, CHR 0x9F],
      [CHR 0xE3, CHR 0x80, CHR 0x80],
      [CHR 0xEF, CHR 0xBB, CHR 0xBF]]"

fun strip_left :: "nat \<Rightarrow> string \<Rightarrow> string" where
  "strip_left 0 s = s"
| "strip_left (Suc n) s =
     (case find (\<lambda>w. take (length w) s = w) StrWhiteSpaceChars of
        None \<Rightarrow> s
      | Some w \<Rightarrow> strip_left n (drop (length w) s))"

fun strip_right :: "nat \<Rightarrow> string \<Rightarrow> string" where
  "strip_right 0 s = s"
| "strip_right (Suc n) s =
     (case find (\<lambda>w. drop (length s - length w) s = w) StrWhiteSpaceChars of
        None \<Rightarrow> s
      | Some w \<Rightarrow> strip_right n (take (length s - length w) s))"

definition trim :: "string \<Rightarrow> string" where
  "trim s = (let t = strip_left (length s) s in strip_right (length t) t)"

text \<open>Digits, also those of the hexadecimal literals, and the literals of the grammar.\<close>

definition digit_val :: "char \<Rightarrow> nat option" where
  "digit_val c =
     (let k = (of_char c :: nat) in
      if 48 \<le> k \<and> k \<le> 57 then Some (k - 48)
      else if 97 \<le> k \<and> k \<le> 102 then Some (k - 87)
      else if 65 \<le> k \<and> k \<le> 70 then Some (k - 55)
      else None)"

definition is_digit :: "nat \<Rightarrow> char \<Rightarrow> bool" where
  "is_digit b c = (case digit_val c of Some d \<Rightarrow> d < b | None \<Rightarrow> False)"

fun digits_val :: "nat \<Rightarrow> string \<Rightarrow> nat \<Rightarrow> nat" where
  "digits_val b [] acc = acc"
| "digits_val b (c # cs) acc = digits_val b cs (acc * b + (case digit_val c of Some d \<Rightarrow> d | None \<Rightarrow> 0))"

definition Digits :: "nat \<Rightarrow> string \<Rightarrow> nat option" where
  "Digits b s = (if s \<noteq> [] \<and> list_all (is_digit b) s then Some (digits_val b s 0) else None)"

definition SignedInteger :: "string \<Rightarrow> int option" where
  "SignedInteger s =
     (case s of
        [] \<Rightarrow> None
      | c # cs \<Rightarrow>
          if c = CHR ''+'' then map_option int (Digits 10 cs)
          else if c = CHR ''-'' then map_option (\<lambda>n. - int n) (Digits 10 cs)
          else map_option int (Digits 10 s))"

definition ExponentPart :: "string \<Rightarrow> int option" where
  "ExponentPart s =
     (case s of
        [] \<Rightarrow> Some 0
      | c # cs \<Rightarrow> if c = CHR ''e'' \<or> c = CHR ''E'' then SignedInteger cs else None)"

definition pow10 :: "int \<Rightarrow> rat" where
  "pow10 k = (if 0 \<le> k then 10 ^ nat k else 1 / 10 ^ nat (- k))"

definition StrUnsignedDecimalLiteral :: "string \<Rightarrow> rat option" where
  "StrUnsignedDecimalLiteral s =
     (if s = ''Infinity'' then None
      else
        let ip = takeWhile (is_digit 10) s;
            r1 = dropWhile (is_digit 10) s;
            dot = (r1 \<noteq> [] \<and> hd r1 = CHR ''.'');
            fp = (if dot then takeWhile (is_digit 10) (tl r1) else []);
            r2 = (if dot then dropWhile (is_digit 10) (tl r1) else r1)
        in if ip = [] \<and> fp = [] then None
           else (case ExponentPart r2 of
                   None \<Rightarrow> None
                 | Some e \<Rightarrow>
                     Some (of_nat (digits_val 10 (ip @ fp) 0) * pow10 (e - int (length fp)))))"

definition StrDecimalLiteral :: "string \<Rightarrow> rat option" where
  "StrDecimalLiteral s =
     (case s of
        [] \<Rightarrow> None
      | c # cs \<Rightarrow>
          if c = CHR ''+'' then StrUnsignedDecimalLiteral cs
          else if c = CHR ''-'' then map_option uminus (StrUnsignedDecimalLiteral cs)
          else StrUnsignedDecimalLiteral s)"

definition NonDecimalIntegerLiteral :: "string \<Rightarrow> rat option option" where
  "NonDecimalIntegerLiteral s =
     (case s of
        c # d # ds \<Rightarrow>
          if c \<noteq> CHR ''0'' then None
          else if d = CHR ''x'' \<or> d = CHR ''X'' then Some (map_option of_nat (Digits 16 ds))
          else if d = CHR ''o'' \<or> d = CHR ''O'' then Some (map_option of_nat (Digits 8 ds))
          else if d = CHR ''b'' \<or> d = CHR ''B'' then Some (map_option of_nat (Digits 2 ds))
          else None
      | _ \<Rightarrow> None)"

text \<open>
  The value of the whole string as a number literal; \<open>None\<close> stands for NaN and for the
  infinities, neither of which is equal to any finite number.
\<close>

definition StringNumericLiteral :: "string \<Rightarrow> rat option" where
  "StringNumericLiteral s =
     (let t = trim s in
      if t = [] then Some 0
      else (case NonDecimalIntegerLiteral t of
              Some r \<Rightarrow> r
            | None \<Rightarrow> StrDecimalLiteral t))"

text \<open>
  Rounding to a double: a positive value \<open>a\<close> with \<open>2 ^ e \<le> a < 2 ^ (e + 1)\<close> is rounded to
  a multiple of \<open>2 ^ (e - 52)\<close> (of \<open>2 ^ (- 1074)\<close> in the subnormal range), to the nearest
  one and to the even one at a tie; a result of \<open>2 ^ 1024\<close> or more is an infinity.
\<close>

fun bit_length :: "nat \<Rightarrow> nat" where
  "bit_length n = (if n = 0 then 0 else Suc (bit_length (n div 2)))"

declare bit_length.simps [simp del]

definition pow2 :: "int \<Rightarrow> rat" where
  "pow2 k = (if 0 \<le> k then 2 ^ nat k else 1 / 2 ^ nat (- k))"

definition floor_log2 :: "rat \<Rightarrow> int" where
  "floor_log2 q =
     (let (a, b) = quotient_of q;
          e = int (bit_length (nat a)) - int (bit_length (nat b))
      in if pow2 e \<le> q then e else e - 1)"

definition round_half_even :: "rat \<Rightarrow> int" where
  "round_half_even x =
     (let f = \<lfloor>x\<rfloor>; d = x - of_int f
      in if d < 1 / 2 then f
         else if 1 / 2 < d then f + 1
         else if even f then f else f + 1)"

definition to_double :: "rat \<Rightarrow> rat option" where
  "to_double q =
     (if q = 0 then Some 0
      else
        let a = \<bar>q\<bar>;
            e = max (floor_log2 a) (- 1022);
            u = pow2 (e - 52);
            r = of_int (round_half_even (a / u)) * u
        in if pow2 1024 \<le> r then None else Some (sgn q * r))"

definition StringToNumber :: "string \<Rightarrow> rat option" where
  "StringToNumber s = Option.bind (StringNumericLiteral s) to_double"

text \<open>
  The abstract equality comparison \<^verbatim>\<open>x == y\<close> on these values: equal types compare
  by value, a number and a string compare after converting the string, and
  \<^verbatim>\<open>undefined\<close> is equal only to itself.
\<close>

fun loose_eq :: "jsval \<Rightarrow> jsval \<Rightarrow> bool" where
  "loose_eq (JNum a) (JNum b) = (a = b)"
| "loose_eq (JStr a) (JStr b) = (a = b)"
| "loose_eq JUndefined JUndefined = True"
| "loose_eq (JNum a) (JStr s) = (StringToNumber s = Some (of_int a))"
| "loose_eq (JStr s) (JNum b) = (StringToNumber s = Some (of_int b))"
| "loose_eq _ _ = False"

text \<open>The strict comparison \<^verbatim>\<open>===\<close> never converts.\<close>

definition strict_eq :: "jsval \<Rightarrow> jsval \<Rightarrow> bool" where
  "strict_eq x y = (x = y)"

text \<open>
  The text of an integer as the language writes it, in a template literal such as the
  list view's \<^verbatim>\<open>`/movies/${movie.id}`\<close>: decimal digits, with a minus sign for a negative one
  (for magnitudes below \<open>10 ^ 21\<close>).
\<close>

definition digit_char :: "nat \<Rightarrow> char" where
  "digit_char d = char_of (48 + d)"

fun decimal :: "nat \<Rightarrow> string" where
  "decimal n = (if n < 10 then [digit_char n] else decimal (n div 10) @ [digit_char (n mod 10)])"

declare decimal.simps [simp del]

definition Number_toString :: "int \<Rightarrow> string" where
  "Number_toString n = (if n < 0 then CHR ''-'' # decimal (nat (- n)) else decimal (nat n))"


section \<open>Store state, intents and the action creators\<close>

text \<open>
  The store's state is \<^verbatim>\<open>{ movies: [...] }\<close> (read as \<^verbatim>\<open>state.movies\<close> by both
  \<^verbatim>\<open>mapStateToProps\<close> functions). Inside the store the elements of the array are object
  references (\<open>record_ref\<close> below); a view reads the state with the properties the
  objects have at that moment (elements of type \<open>obj\<close>).
\<close>

record 'r app_state =
  movies :: "'r list"

text \<open>
  \<^verbatim>\<open>addMovie\<close> assigns to a property of the object it is given, so payload objects live
  in a heap and are passed by reference. The world also holds the module-level
  \<^verbatim>\<open>counter\<close> of \<^verbatim>\<open>src/actions/index.js\<close>, the store's state, and the log of the effects
  performed so far (in the order they happen).
\<close>

type_synonym addr = nat

text \<open>
  An element of the store's array: the objects that \<^verbatim>\<open>fetchMovies\<close> writes as a literal are
  referred to from nowhere else, so such an element is given by its value; an element
  that came in as the payload of an "add movie" intent is the caller's own object,
  given by its address.
\<close>

datatype record_ref = Literal obj | Ref addr

datatype action = FETCH_MOVIES "record_ref list" | ADD_MOVIE addr

datatype effect = PreventDefault | Dispatch action | HistoryPush string

record world =
  heap :: "addr \<rightharpoonup> obj"
  counter :: int
  store :: "record_ref app_state"
  effects :: "effect list"


text \<open>
  \<^verbatim>\<open>
  export function fetchMovies(){
    return { type: 'FETCH_MOVIES',
             movies:  [ { id: 1, title: 'A River Runs Through It' } ] };
  }
  \<close>
\<close>

definition fetchMovies :: action where
  "fetchMovies =
     FETCH_MOVIES [Literal [(''id'', JNum 1), (''title'', JStr ''A River Runs Through It'')]]"

text \<open>
  \<^verbatim>\<open>
  export function addMovie(movie) {
    movie.id = ++counter;
    return { type: 'ADD_MOVIE', movie };
  }
  \<close>
  An argument that is not an object (here: an address with no object) makes the
  property assignment raise.
\<close>

definition addMovie :: "addr \<Rightarrow> world \<Rightarrow> error + (action \<times> world)" where
  "addMovie movie w =
     (case heap w movie of
        None \<Rightarrow> Inl TypeError
      | Some ob \<Rightarrow>
          (let c = counter w + 1 in
           Inr (ADD_MOVIE movie,
                w\<lparr>counter := c, heap := (heap w)(movie \<mapsto> set_prop ob ''id'' (JNum c))\<rparr>)))"

text \<open>
  Modelled from the spec: the reducer (\<^verbatim>\<open>./reducers\<close>, imported by \<^verbatim>\<open>src/index.js\<close>, is not
  among the sources). On the "request movie list" intent the state's \<open>movies\<close> is
  replaced by the intent's list; on the "add movie" intent the new record is appended
  to the previous sequence. The record of an "add movie" intent is the object in the
  intent's \<^verbatim>\<open>movie\<close> field, which is the caller's payload object itself: what is appended
  is the reference, not a copy.
\<close>

fun reducer :: "record_ref app_state \<Rightarrow> action \<Rightarrow> record_ref app_state" where
  "reducer st (FETCH_MOVIES ms) = st\<lparr>movies := ms\<rparr>"
| "reducer st (ADD_MOVIE a) = st\<lparr>movies := movies st @ [Ref a]\<rparr>"

text \<open>
  The store's \<^verbatim>\<open>dispatch\<close> runs the reducer on the current state, synchronously, and
  \<^verbatim>\<open>bindActionCreators(f, dispatch)\<close> is \<^verbatim>\<open>(...args) => dispatch(f(...args))\<close>.
\<close>

definition dispatch :: "action \<Rightarrow> world \<Rightarrow> world" where
  "dispatch a w =
     w\<lparr>store := reducer (store w) a, effects := effects w @ [Dispatch a]\<rparr>"

text \<open>
  The store's \<^verbatim>\<open>getState\<close> as a view reads it: every record with the properties its object
  has now. (A reference to no object does not arise; the state is then unreadable.)
\<close>

fun read_ref :: "(addr \<rightharpoonup> obj) \<Rightarrow> record_ref \<Rightarrow> obj option" where
  "read_ref h (Literal ob) = Some ob"
| "read_ref h (Ref a) = h a"

fun read_refs :: "(addr \<rightharpoonup> obj) \<Rightarrow> record_ref list \<Rightarrow> obj list option" where
  "read_refs h [] = Some []"
| "read_refs h (r # rs) =
     (case read_ref h r of
        None \<Rightarrow> None
      | Some ob \<Rightarrow> map_option ((#) ob) (read_refs h rs))"

definition getState :: "world \<Rightarrow> obj app_state option" where
  "getState w = map_option (\<lambda>ms. \<lparr>movies = ms\<rparr>) (read_refs (heap w) (movies (store w)))"

definition props_fetchMovies :: "world \<Rightarrow> world" where
  "props_fetchMovies w = dispatch fetchMovies w"



section \<open>Components\<close>

datatype component = App | MoviesPage | MoviesShow | MoviesNew

text \<open>
  What a render returns: host elements with their attributes and children, text
  produced by a \<^verbatim>\<open>{expression}\<close> child (\<^verbatim>\<open>undefined\<close> renders as nothing), the
  \<^verbatim>\<open><MoviesList movies={...} />\<close> element, and the element the router creates for a matched
  route component, with the captured parameters and the nested child element.
\<close>

datatype vnode =
    Html string "(string \<times> string) list" "vnode list"
  | Text jsval
  | MoviesList "obj list"
  | Routed component obj "vnode option"

subsection \<open>The list view, \<^verbatim>\<open>src/containers/MoviesPage.js\<close>\<close>

record MoviesPage_props =
  movies_prop :: "obj list"
  children :: "vnode option"

text \<open>\<^verbatim>\<open>componentDidMount() { this.props.fetchMovies(); }\<close>\<close>

definition componentDidMount :: "world \<Rightarrow> world" where
  "componentDidMount w = props_fetchMovies w"

text \<open>
  The render method as it is in the file:
  \<^verbatim>\<open>
  render() {
    return ( <div> <MoviesList movies={this.props.movies} /> </div> );
  }
  \<close>
\<close>

definition MoviesPage_render :: "MoviesPage_props \<Rightarrow> vnode" where
  "MoviesPage_render props = Html ''div'' [] [MoviesList (movies_prop props)]"

text \<open>
  The render method as the lesson text updates it:
  \<^verbatim>\<open>
  render(){
    return( <div> <MoviesList movies={ this.props.movies } /> { this.props.children } </div>)
  }
  \<close>
\<close>

definition slot :: "vnode option \<Rightarrow> vnode list" where
  "slot c = (case c of None \<Rightarrow> [] | Some e \<Rightarrow> [e])"

definition MoviesPage_render_lesson :: "MoviesPage_props \<Rightarrow> vnode" where
  "MoviesPage_render_lesson props =
     Html ''div'' [] (MoviesList (movies_prop props) # slot (children props))"

text \<open>
  The module's last statement is
  \<^verbatim>\<open>export default connect(mapStateToProps, mapDispatchToProps)(MoviePage);\<close>
  Evaluating it resolves its identifiers in the order they are evaluated, each in the
  module's scope (the names bound by the imports and declarations of the file) and
  then in the global environment; an identifier bound in neither raises a reference
  error. The value exported is then the connected component.
\<close>

definition MoviesPage_module_scope :: "string list" where
  "MoviesPage_module_scope =
     [''React'', ''Component'', ''connect'', ''bindActionCreators'', ''fetchMovies'',
      ''MoviesList'', ''MoviesPage'', ''mapStateToProps'', ''mapDispatchToProps'']"

definition resolve :: "string set \<Rightarrow> string list \<Rightarrow> string \<Rightarrow> error + string" where
  "resolve globals scope x =
     (if x \<in> set scope \<or> x \<in> globals then Inr x else Inl (ReferenceError x))"

fun resolve_all :: "string set \<Rightarrow> string list \<Rightarrow> string list \<Rightarrow> error + string list" where
  "resolve_all globals scope [] = Inr []"
| "resolve_all globals scope (x # xs) =
     (case resolve globals scope x of
        Inl e \<Rightarrow> Inl e
      | Inr y \<Rightarrow> (case resolve_all globals scope xs of
                   Inl e \<Rightarrow> Inl e
                 | Inr ys \<Rightarrow> Inr (y # ys)))"

definition export_default :: "string set \<Rightarrow> string list \<Rightarrow> string \<Rightarrow> error + string" where
  "export_default globals scope wrapped =
     (case resolve_all globals scope
             [''connect'', ''mapStateToProps'', ''mapDispatchToProps'', wrapped] of
        Inl e \<Rightarrow> Inl e
      | Inr _ \<Rightarrow> Inr (''Connect('' @ wrapped @ '')''))"

definition MoviesPage_export_default :: "string set \<Rightarrow> error + string" where
  "MoviesPage_export_default globals =
     export_default globals MoviesPage_module_scope ''MoviePage''"

subsection \<open>The detail view, \<^verbatim>\<open>./src/containers/MoviesShow.js\<close> of the lesson text\<close>

text \<open>
  \<^verbatim>\<open>
  const mapStateToProps = (state, ownProps) => {
    return { movie: state.movies.find(movie => movie.id == ownProps.routeParams.id) }
  };
  \<close>
  \<^verbatim>\<open>find\<close> gives the first element that satisfies the test, or \<^verbatim>\<open>undefined\<close> (\<open>None\<close>).
\<close>

definition MoviesShow_mapStateToProps :: "obj app_state \<Rightarrow> obj \<Rightarrow> obj option" where
  "MoviesShow_mapStateToProps state routeParams =
     find (\<lambda>movie. loose_eq (get_prop movie ''id'') (get_prop routeParams ''id''))
       (movies state)"

text \<open>
  \<^verbatim>\<open>
  const MoviesShow = (props) => {
    return( <div className="col-md-8"> {props.movie.title} </div> );
  }
  \<close>
  Reading \<^verbatim>\<open>title\<close> of \<^verbatim>\<open>undefined\<close> raises a TypeError.
\<close>

definition MoviesShow_render :: "obj option \<Rightarrow> error + vnode" where
  "MoviesShow_render movie =
     (case movie of
        None \<Rightarrow> Inl TypeError
      | Some m \<Rightarrow> Inr (Html ''div'' [(''className'', ''col-md-8'')] [Text (get_prop m ''title'')]))"

text \<open>\<^verbatim>\<open>connect(mapStateToProps)(MoviesShow)\<close>, rendered for a store state and route parameters.\<close>

definition MoviesShow_connected :: "obj app_state \<Rightarrow> obj \<Rightarrow> error + vnode" where
  "MoviesShow_connected state routeParams =
     MoviesShow_render (MoviesShow_mapStateToProps state routeParams)"

subsection \<open>The creation view, \<^verbatim>\<open>./src/containers/MoviesNew\<close> of the lesson text\<close>


section \<open>The route tree\<close>

text \<open>\<^verbatim>\<open><Route path=... component=...> children </Route>\<close>\<close>

datatype route = Route string component "route list"

text \<open>
  The routes of \<^verbatim>\<open>src/index.js\<close> as it is in the repository:
  \<^verbatim>\<open>
  <Router history={browserHistory} >
    <Route path="/" component={App} />
    <Route path='/movies' component={MoviesPage} />
  </Router>
  \<close>
\<close>

definition index_routes :: "route list" where
  "index_routes = [Route ''/'' App [], Route ''/movies'' MoviesPage []]"

text \<open>
  The routes of \<^verbatim>\<open>./src/index.js\<close> as the lesson text ends with them:
  \<^verbatim>\<open>
  <Route path="/" component={App} >
    <Route path='/movies' component={MoviesPage}>
      <Route path="/movies/new" component={MoviesNew} />
      <Route path="/movies/:id" component={MoviesShow} />
    </Route>
  </Route>
  \<close>
\<close>

definition movies_children :: "route list" where
  "movies_children = [Route ''/movies/new'' MoviesNew [], Route ''/movies/:id'' MoviesShow []]"

definition lesson_routes :: "route list" where
  "lesson_routes = [Route ''/'' App [Route ''/movies'' MoviesPage movies_children]]"

text \<open>
  Modelled from the spec: the route matcher and the rendering of a match (the router
  library's, not among the sources). Given the URL path and the declared tree, it
  gives the chain of components from the root to the most specific match and the
  captured parameters; sibling patterns are tried in declaration order and the first
  that matches wins; a literal segment matches itself and a \<^verbatim>\<open>:name\<close> segment captures
  the text of one segment. Patterns are absolute paths, as every pattern declared in
  this repository is. A matched chain is rendered by supplying each component's
  element to its parent as the parent's children.
\<close>

fun segments :: "string \<Rightarrow> string \<Rightarrow> string list" where
  "segments [] cur = (if cur = [] then [] else [cur])"
| "segments (c # cs) cur =
     (if c = CHR ''/'' then (if cur = [] then segments cs [] else cur # segments cs [])
      else segments cs (cur @ [c]))"

definition split_path :: "string \<Rightarrow> string list" where
  "split_path s = segments s []"

fun match_pattern :: "string list \<Rightarrow> string list \<Rightarrow> obj option" where
  "match_pattern [] [] = Some []"
| "match_pattern (p # ps) (s # ss) =
     (if p \<noteq> [] \<and> hd p = CHR '':''
      then map_option (\<lambda>r. (tl p, JStr s) # r) (match_pattern ps ss)
      else if p = s then match_pattern ps ss
      else None)"
| "match_pattern _ _ = None"

fun match_route :: "route \<Rightarrow> string list \<Rightarrow> (component list \<times> obj) option"
  and match_routes :: "route list \<Rightarrow> string list \<Rightarrow> (component list \<times> obj) option" where
  "match_route (Route pat c kids) path =
     (case match_pattern (split_path pat) path of
        Some ps \<Rightarrow> Some ([c], ps)
      | None \<Rightarrow>
          (case match_routes kids path of
             Some (cs, ps) \<Rightarrow> Some (c # cs, ps)
           | None \<Rightarrow> None))"
| "match_routes [] path = None"
| "match_routes (r # rs) path =
     (case match_route r path of
        Some m \<Rightarrow> Some m
      | None \<Rightarrow> match_routes rs path)"

definition router_match :: "route list \<Rightarrow> string \<Rightarrow> (component list \<times> obj) option" where
  "router_match routes url = match_routes routes (split_path url)"

fun render_chain :: "component list \<Rightarrow> obj \<Rightarrow> vnode option" where
  "render_chain [] params = None"
| "render_chain (c # cs) params = Some (Routed c params (render_chain cs params))"

section \<open>A concrete world\<close>

text \<open>
  The state after the list view has loaded the seed list, the counter as the module
  initialises it, and two separate form-state objects with the same title.
\<close>

definition example_world :: world where
  "example_world =
     \<lparr>heap = [0 \<mapsto> [(''title'', JStr ''Inception'')], 1 \<mapsto> [(''title'', JStr ''Inception'')]],
      counter = 1,
      store = \<lparr>movies = [Literal [(''id'', JNum 1), (''title'', JStr ''A River Runs Through It'')]]\<rparr>,
      effects = []\<rparr>"

section \<open>Basic facts\<close>

lemma get_set_prop_same: "get_prop (set_prop ob k v) k = v"
  by (simp add: get_prop_def set_prop_def update_conv')


subsection \<open>Rounding and the conversion of decimal numerals\<close>

lemma pow2_powi: "pow2 k = 2 powi k"
  unfolding pow2_def power_int_def by (simp add: field_simps)

lemma pow2_pos: "0 < pow2 k"
  by (simp add: pow2_powi)

lemma bit_length_bounds:
  "0 < n \<Longrightarrow> 2 ^ (bit_length n - 1) \<le> n \<and> n < 2 ^ bit_length n"
proof (induction n rule: bit_length.induct)
  case (1 n)
  show ?case
  proof (cases "n div 2 = 0")
    case True
    with "1.prems" have "n = 1" by auto
    then show ?thesis
      by (simp add: bit_length.simps [of "Suc 0"] bit_length.simps [of 0])
  next
    case False
    with "1.IH" "1.prems" have ih: "2 ^ (bit_length (n div 2) - 1) \<le> n div 2"
      "n div 2 < 2 ^ bit_length (n div 2)" by auto
    from "1.prems" have bl: "bit_length n = Suc (bit_length (n div 2))"
      by (simp add: bit_length.simps [of n])
    from False have pos: "0 < bit_length (n div 2)"
      by (simp add: bit_length.simps [of "n div 2"])
    have "2 ^ (bit_length n - 1) = 2 * 2 ^ (bit_length (n div 2) - 1)"
      using bl pos by (cases "bit_length (n div 2)") simp_all
    also have "\<dots> \<le> 2 * (n div 2)" using ih(1) by simp
    also have "\<dots> \<le> n" by simp
    finally have lo: "2 ^ (bit_length n - 1) \<le> n" .
    have "n < 2 * (n div 2) + 2" by arith
    also have "\<dots> \<le> 2 * 2 ^ bit_length (n div 2)" using ih(2) by simp
    finally have "n < 2 ^ bit_length n" using bl by simp
    with lo show ?thesis by simp
  qed
qed

lemma bit_length_pos: "0 < n \<Longrightarrow> 0 < bit_length n"
  by (simp add: bit_length.simps [of n])

lemma floor_log2_bounds:
  assumes "0 < q"
  shows "pow2 (floor_log2 q) \<le> q \<and> q < pow2 (floor_log2 q + 1)"
proof -
  obtain a b where ab: "quotient_of q = (a, b)" by (cases "quotient_of q")
  then have bpos: "0 < b" by (rule quotient_of_denom_pos)
  from ab have q: "q = of_int a / of_int b" by (rule quotient_of_div)
  with assms bpos have apos: "0 < a" by (simp add: zero_less_divide_iff)
  define A B where "A = nat a" and "B = nat b"
  have Apos: "0 < A" and Bpos: "0 < B" using apos bpos by (simp_all add: A_def B_def)
  have qAB: "q = of_nat A / of_nat B"
    using q apos bpos by (simp add: A_def B_def)
  define la lb where "la = bit_length A" and "lb = bit_length B"
  have A1: "2 ^ (la - 1) \<le> A" and A2: "A < 2 ^ la"
    using bit_length_bounds [OF Apos] by (simp_all add: la_def)
  have B1: "2 ^ (lb - 1) \<le> B" and B2: "B < 2 ^ lb"
    using bit_length_bounds [OF Bpos] by (simp_all add: lb_def)
  have lapos: "0 < la" and lbpos: "0 < lb"
    using bit_length_pos Apos Bpos by (simp_all add: la_def lb_def)
  define e where "e = int la - int lb"
  have fl: "floor_log2 q = (if pow2 e \<le> q then e else e - 1)"
    by (simp add: floor_log2_def ab e_def la_def lb_def A_def B_def)
  have BQ: "(0::rat) < of_nat B" using Bpos by simp
  have up: "q < pow2 (e + 1)"
  proof -
    have "(of_nat A :: rat) < 2 ^ la" using A2 by (metis of_nat_less_iff of_nat_numeral of_nat_power)
    moreover have "(2::rat) ^ (lb - 1) \<le> of_nat B" using B1 by (metis of_nat_le_iff of_nat_numeral of_nat_power)
    ultimately have "of_nat A * (2::rat) ^ (lb - 1) < 2 ^ la * of_nat B"
      using BQ by (intro mult_less_le_imp_less) simp_all
    then have "q < 2 ^ la / 2 ^ (lb - 1)"
      using BQ by (simp add: qAB field_simps)
    also have "(2::rat) ^ la / 2 ^ (lb - 1) = 2 powi (int la - int (lb - 1))"
      by (simp add: power_int_diff)
    also have "int la - int (lb - 1) = e + 1" using lbpos by (simp add: e_def)
    finally show ?thesis by (simp add: pow2_powi)
  qed
  have lo: "pow2 (e - 1) \<le> q"
  proof -
    have "(2::rat) ^ (la - 1) \<le> of_nat A" using A1 by (metis of_nat_le_iff of_nat_numeral of_nat_power)
    moreover have "(of_nat B :: rat) \<le> 2 ^ lb" using B2 by (metis less_imp_le of_nat_less_iff of_nat_numeral of_nat_power)
    ultimately have "(2::rat) ^ (la - 1) * of_nat B \<le> of_nat A * 2 ^ lb"
      by (intro mult_mono) simp_all
    then have "(2::rat) ^ (la - 1) / 2 ^ lb \<le> q"
      using BQ by (simp add: qAB field_simps)
    moreover have "(2::rat) ^ (la - 1) / 2 ^ lb = 2 powi (int (la - 1) - int lb)"
      by (simp add: power_int_diff)
    moreover have "int (la - 1) - int lb = e - 1" using lapos by (simp add: e_def)
    ultimately show ?thesis by (simp add: pow2_powi)
  qed
  show ?thesis
  proof (cases "pow2 e \<le> q")
    case True
    with up fl show ?thesis by simp
  next
    case False
    with lo fl show ?thesis by simp
  qed
qed

lemma pow2_mono: "i \<le> j \<Longrightarrow> pow2 i \<le> pow2 j"
  by (simp add: pow2_powi power_int_increasing)

lemma pow2_strict_mono: "i < j \<Longrightarrow> pow2 i < pow2 j"
  by (simp add: pow2_powi power_int_strict_increasing)

lemma floor_log2_eq:
  assumes "pow2 e \<le> q" and "q < pow2 (e + 1)"
  shows "floor_log2 q = e"
proof -
  have "0 < q" using assms(1) pow2_pos [of e] by simp
  from floor_log2_bounds [OF this] have
    b1: "pow2 (floor_log2 q) \<le> q" and b2: "q < pow2 (floor_log2 q + 1)" by simp_all
  have "\<not> floor_log2 q < e"
  proof
    assume "floor_log2 q < e"
    then have "pow2 (floor_log2 q + 1) \<le> pow2 e" by (intro pow2_mono) simp
    with b2 assms(1) show False by simp
  qed
  moreover have "\<not> e < floor_log2 q"
  proof
    assume "e < floor_log2 q"
    then have "pow2 (e + 1) \<le> pow2 (floor_log2 q)" by (intro pow2_mono) simp
    with b1 assms(2) show False by simp
  qed
  ultimately show ?thesis by simp
qed

lemma round_half_even_int: "round_half_even (of_int k) = k"
  by (simp add: round_half_even_def)


lemma to_double_int:
  assumes "\<bar>n\<bar> < 2 ^ 53"
  shows "to_double (of_int n) = Some (of_int n)"
proof (cases "n = 0")
  case True
  then show ?thesis by (simp add: to_double_def)
next
  case False
  define a :: rat where "a = \<bar>of_int n\<bar>"
  have a1: "1 \<le> a" using False by (simp add: a_def flip: of_int_abs)
  have a2: "a < 2 ^ 53"
  proof -
    have "(of_int \<bar>n\<bar> :: rat) < of_int (2 ^ 53)" using assms by (simp only: of_int_less_iff)
    then show ?thesis by (simp add: a_def)
  qed
  have apos: "0 < a" using a1 by simp
  define e where "e = floor_log2 a"
  from floor_log2_bounds [OF apos] have b1: "pow2 e \<le> a" and b2: "a < pow2 (e + 1)"
    by (simp_all add: e_def)
  have e_hi: "e \<le> 52"
  proof (rule ccontr)
    assume "\<not> e \<le> 52"
    then have "pow2 53 \<le> pow2 e" by (intro pow2_mono) simp
    with b1 a2 show False by (simp add: pow2_def)
  qed
  have e_lo: "0 \<le> e"
  proof (rule ccontr)
    assume "\<not> 0 \<le> e"
    then have "pow2 (e + 1) \<le> pow2 0" by (intro pow2_mono) simp
    with b2 a1 show False by (simp add: pow2_def)
  qed
  define m where "m = nat (52 - e)"
  have u: "pow2 (max e (- 1022) - 52) = 1 / 2 ^ m"
  proof (cases "e = 52")
    case True
    then show ?thesis by (simp add: pow2_def m_def)
  next
    case False
    with e_hi e_lo have "max e (- 1022) - 52 < 0" "- (max e (- 1022) - 52) = 52 - e" by simp_all
    then show ?thesis by (simp add: pow2_def m_def)
  qed
  have "a / (1 / 2 ^ m) = of_int (\<bar>n\<bar> * 2 ^ m)" by (simp add: a_def)
  then have r: "round_half_even (a / (1 / 2 ^ m)) = \<bar>n\<bar> * 2 ^ m"
    by (simp only: round_half_even_int)
  have rb: "of_int (\<bar>n\<bar> * 2 ^ m) * (1 / 2 ^ m) = a" by (simp add: a_def)
  have small: "\<not> pow2 1024 \<le> a"
  proof -
    have "a < pow2 53" using a2 by (simp add: pow2_def)
    also have "pow2 53 \<le> pow2 1024" by (intro pow2_mono) simp
    finally show ?thesis by simp
  qed
  have sg: "sgn (of_int n :: rat) * a = of_int n"
    by (simp add: a_def sgn_mult_abs)
  have nz: "(of_int n :: rat) \<noteq> 0" using False by simp
  show ?thesis
    unfolding to_double_def Let_def
    using nz small sg
    by (simp only: if_False a_def [symmetric] e_def [symmetric] u r rb)
qed

lemma digit_val_digit_char: "d < 10 \<Longrightarrow> digit_val (digit_char d) = Some d"
  by (simp add: digit_val_def digit_char_def Let_def)

lemma is_digit_digit_char: "d < 10 \<Longrightarrow> is_digit 10 (digit_char d)"
  by (simp add: is_digit_def digit_val_digit_char)

lemma digits_val_snoc:
  "digits_val b (xs @ [c]) acc =
     digits_val b xs acc * b + (case digit_val c of Some d \<Rightarrow> d | None \<Rightarrow> 0)"
  by (induction xs arbitrary: acc) simp_all

lemma decimal_digits: "list_all (is_digit 10) (decimal n)"
  by (induction n rule: decimal.induct)
     (subst decimal.simps, simp add: is_digit_digit_char)

lemma decimal_nonempty: "decimal n \<noteq> []"
  by (subst decimal.simps) simp

lemma digits_val_decimal: "digits_val 10 (decimal n) 0 = n"
proof (induction n rule: decimal.induct)
  case (1 n)
  show ?case
  proof (cases "n < 10")
    case True
    then show ?thesis by (subst decimal.simps) (simp add: digit_val_digit_char)
  next
    case False
    with "1.IH" have "digits_val 10 (decimal (n div 10)) 0 = n div 10" by simp
    with False show ?thesis
      by (subst decimal.simps) (simp add: digits_val_snoc digit_val_digit_char)
  qed
qed


lemma ws_first_not_digit:
  "c \<in> set (map hd StrWhiteSpaceChars) \<Longrightarrow> \<not> is_digit 10 c \<and> c \<noteq> CHR ''-''"
  by (auto simp: StrWhiteSpaceChars_def is_digit_def digit_val_def)

lemma ws_last_not_digit:
  "c \<in> set (map last StrWhiteSpaceChars) \<Longrightarrow> \<not> is_digit 10 c \<and> c \<noteq> CHR ''-''"
  by (auto simp: StrWhiteSpaceChars_def is_digit_def digit_val_def)

lemma ws_nonempty: "w \<in> set StrWhiteSpaceChars \<Longrightarrow> w \<noteq> []"
  by (auto simp: StrWhiteSpaceChars_def)

lemma strip_left_id:
  assumes "s \<noteq> []" and "hd s \<notin> set (map hd StrWhiteSpaceChars)"
  shows "strip_left n s = s"
proof (cases n)
  case 0
  then show ?thesis by simp
next
  case (Suc k)
  have "find (\<lambda>w. take (length w) s = w) StrWhiteSpaceChars = None"
  proof (unfold find_None_iff, intro notI, elim exE conjE)
    fix w assume w: "w \<in> set StrWhiteSpaceChars" and t: "take (length w) s = w"
    from w have "w \<noteq> []" by (rule ws_nonempty)
    with t assms(1) have "hd s = hd w" by (cases s; cases w) auto
    with w assms(2) show False by auto
  qed
  with Suc show ?thesis by simp
qed

lemma strip_right_id:
  assumes "s \<noteq> []" and "last s \<notin> set (map last StrWhiteSpaceChars)"
  shows "strip_right n s = s"
proof (cases n)
  case 0
  then show ?thesis by simp
next
  case (Suc k)
  have "find (\<lambda>w. drop (length s - length w) s = w) StrWhiteSpaceChars = None"
  proof (unfold find_None_iff, intro notI, elim exE conjE)
    fix w assume w: "w \<in> set StrWhiteSpaceChars" and t: "drop (length s - length w) s = w"
    from w have ne: "w \<noteq> []" by (rule ws_nonempty)
    with t have "length s - length w < length s" by (cases "length s - length w < length s") auto
    then have "last (drop (length s - length w) s) = last s" by (rule last_drop)
    with t have "last s = last w" by simp
    with w assms(2) show False by auto
  qed
  with Suc show ?thesis by simp
qed

lemma trim_id:
  assumes "s \<noteq> []" and "hd s \<notin> set (map hd StrWhiteSpaceChars)"
    and "last s \<notin> set (map last StrWhiteSpaceChars)"
  shows "trim s = s"
  using assms by (simp add: trim_def strip_left_id strip_right_id)

lemma decimal_hd: "is_digit 10 (hd (decimal n))"
  using decimal_digits [of n] decimal_nonempty [of n]
  by (cases "decimal n") simp_all

lemma decimal_last: "is_digit 10 (last (decimal n))"
  using decimal_digits [of n] decimal_nonempty [of n]
  by (simp add: list_all_iff)

lemma StrUnsignedDecimalLiteral_decimal:
  "StrUnsignedDecimalLiteral (decimal n) = Some (of_nat n)"
proof -
  have all: "\<forall>c \<in> set (decimal n). is_digit 10 c"
    using decimal_digits [of n] by (simp add: list_all_iff)
  have tw: "takeWhile (is_digit 10) (decimal n) = decimal n"
    using all by (simp add: takeWhile_eq_all_conv)
  have dw: "dropWhile (is_digit 10) (decimal n) = []"
    using all by simp
  have "\<not> is_digit 10 CHR ''I''" by (simp add: is_digit_def digit_val_def)
  with all have ninf: "decimal n \<noteq> ''Infinity''" by auto
  show ?thesis
    by (simp add: StrUnsignedDecimalLiteral_def ninf tw dw Let_def decimal_nonempty
          ExponentPart_def digits_val_decimal pow10_def)
qed

lemma NonDecimalIntegerLiteral_digits:
  assumes "s = c # cs" and "list_all (is_digit 10) cs"
  shows "NonDecimalIntegerLiteral s = None"
proof (cases cs)
  case Nil
  with assms show ?thesis by (simp add: NonDecimalIntegerLiteral_def)
next
  case (Cons d ds)
  with assms have "is_digit 10 d" by simp
  then have "d \<notin> {CHR ''x'', CHR ''X'', CHR ''o'', CHR ''O'', CHR ''b'', CHR ''B''}"
    by (auto simp: is_digit_def digit_val_def)
  with assms Cons show ?thesis by (simp add: NonDecimalIntegerLiteral_def)
qed

lemma StringNumericLiteral_toString:
  "StringNumericLiteral (Number_toString n) = Some (of_int n)"
proof (cases "n < 0")
  case True
  define s where "s = CHR ''-'' # decimal (nat (- n))"
  have ts: "Number_toString n = s" using True by (simp add: Number_toString_def s_def)
  have l: "last s = last (decimal (nat (- n)))" by (simp add: s_def decimal_nonempty)
  have "trim s = s"
  proof (rule trim_id)
    show "s \<noteq> []" by (simp add: s_def)
    show "hd s \<notin> set (map hd StrWhiteSpaceChars)"
      using ws_first_not_digit [of "hd s"] by (auto simp: s_def)
    show "last s \<notin> set (map last StrWhiteSpaceChars)"
      using ws_last_not_digit [of "last s"] decimal_last [of "nat (- n)"] l by auto
  qed
  moreover have "NonDecimalIntegerLiteral s = None"
    by (rule NonDecimalIntegerLiteral_digits [OF s_def decimal_digits])
  moreover have "StrDecimalLiteral s = Some (of_int n)"
    using True by (simp add: StrDecimalLiteral_def s_def StrUnsignedDecimalLiteral_decimal)
  ultimately show ?thesis by (simp add: StringNumericLiteral_def ts s_def)
next
  case False
  define s where "s = decimal (nat n)"
  have ts: "Number_toString n = s" using False by (simp add: Number_toString_def s_def)
  obtain c cs where cs: "s = c # cs" using decimal_nonempty [of "nat n"] by (cases s) (auto simp: s_def)
  have dig: "list_all (is_digit 10) (c # cs)" using decimal_digits [of "nat n"] cs by (simp add: s_def)
  have "trim s = s"
  proof (rule trim_id)
    show "s \<noteq> []" by (simp add: cs)
    show "hd s \<notin> set (map hd StrWhiteSpaceChars)"
      using ws_first_not_digit [of "hd s"] decimal_hd [of "nat n"] by (auto simp: s_def)
    show "last s \<notin> set (map last StrWhiteSpaceChars)"
      using ws_last_not_digit [of "last s"] decimal_last [of "nat n"] by (auto simp: s_def)
  qed
  moreover have "NonDecimalIntegerLiteral s = None"
    using dig by (intro NonDecimalIntegerLiteral_digits [OF cs]) simp
  moreover have "c \<noteq> CHR ''+''" "c \<noteq> CHR ''-''"
    using dig by (auto simp: is_digit_def digit_val_def)
  then have "StrDecimalLiteral s = StrUnsignedDecimalLiteral s"
    by (simp add: StrDecimalLiteral_def cs)
  moreover have "StrUnsignedDecimalLiteral s = Some (of_int n)"
    using False by (simp add: s_def StrUnsignedDecimalLiteral_decimal)
  ultimately show ?thesis by (simp add: StringNumericLiteral_def ts cs)
qed

lemma StringToNumber_toString:
  "\<bar>n\<bar> < 2 ^ 53 \<Longrightarrow> StringToNumber (Number_toString n) = Some (of_int n)"
  by (simp add: StringToNumber_def StringNumericLiteral_toString to_double_int)

lemma loose_eq_toString:
  "\<bar>n\<bar> < 2 ^ 53 \<Longrightarrow> loose_eq (JNum k) (JStr (Number_toString n)) \<longleftrightarrow> k = n"
  by (auto simp: StringToNumber_toString)

lemma round_half_even_near:
  assumes "of_int k - 1 / 2 < x" and "x < of_int k + 1 / 2"
  shows "round_half_even x = k"
proof (cases "of_int k \<le> x")
  case True
  with assms(2) have "\<lfloor>x\<rfloor> = k" by (intro floor_unique) simp_all
  with assms(2) show ?thesis by (simp add: round_half_even_def)
next
  case False
  with assms(1) have "\<lfloor>x\<rfloor> = k - 1" by (intro floor_unique) simp_all
  with assms(1) show ?thesis by (simp add: round_half_even_def)
qed

lemma round_half_even_tie:
  assumes "x = of_int k + 1 / 2"
  shows "round_half_even x = (if even k then k else k + 1)"
proof -
  have "\<lfloor>x\<rfloor> = k" using assms by (intro floor_unique) simp_all
  with assms show ?thesis by (simp add: round_half_even_def)
qed

lemma to_double_pos:
  assumes "pow2 e \<le> q" and "q < pow2 (e + 1)" and "- 1022 \<le> e"
    and "round_half_even (q / pow2 (e - 52)) = k"
    and "of_int k * pow2 (e - 52) < pow2 1024"
  shows "to_double q = Some (of_int k * pow2 (e - 52))"
proof -
  have qpos: "0 < q" using assms(1) pow2_pos [of e] by simp
  have fl: "floor_log2 q = e" using assms(1,2) by (rule floor_log2_eq)
  have a: "\<bar>q\<bar> = q" using qpos by simp
  have mx: "max e (- 1022) = e" using assms(3) by simp
  have sg: "sgn q = 1" using qpos by simp
  have nz: "q \<noteq> 0" using qpos by simp
  have no: "\<not> pow2 1024 \<le> rat_of_int k * pow2 (e - 52)" using assms(5) by simp
  show ?thesis
    unfolding to_double_def Let_def a fl mx assms(4) sg
    using nz no by simp
qed

lemma to_double_1_eps: "to_double (100000000000000000001 / 100000000000000000000) = Some 1"
proof -
  have r: "round_half_even (100000000000000000001 / 100000000000000000000 / pow2 (0 - 52)) =
      4503599627370496"
    by (rule round_half_even_near) (simp_all add: pow2_def)
  have "to_double (100000000000000000001 / 100000000000000000000) =
      Some (of_int 4503599627370496 * pow2 (0 - 52))"
    by (rule to_double_pos [OF _ _ _ r]) (simp_all add: pow2_def)
  then show ?thesis by (simp add: pow2_def)
qed

lemma to_double_tie: "to_double 9007199254740993 = Some 9007199254740992"
proof -
  have "round_half_even (9007199254740993 / pow2 (53 - 52)) =
      (if even (4503599627370496::int) then 4503599627370496 else 4503599627370496 + 1)"
    by (rule round_half_even_tie) (simp add: pow2_def)
  then have r: "round_half_even (9007199254740993 / pow2 (53 - 52)) = 4503599627370496"
    by simp
  have "to_double 9007199254740993 = Some (of_int 4503599627370496 * pow2 (53 - 52))"
    by (rule to_double_pos [OF _ _ _ r]) (simp_all add: pow2_def)
  then show ?thesis by (simp add: pow2_def)
qed

lemma to_double_below_1:
  "to_double (99999999999999999999 / 100000000000000000000) = Some 1"
proof -
  have r: "round_half_even (99999999999999999999 / 100000000000000000000 / pow2 (- 1 - 52)) =
      9007199254740992"
    by (rule round_half_even_near) (simp_all add: pow2_def)
  have "to_double (99999999999999999999 / 100000000000000000000) =
      Some (of_int 9007199254740992 * pow2 (- 1 - 52))"
    by (rule to_double_pos [OF _ _ _ r]) (simp_all add: pow2_def)
  then show ?thesis by (simp add: pow2_def)
qed

lemma to_double_odd_tie: "to_double 9007199254740995 = Some 9007199254740996"
proof -
  have "round_half_even (9007199254740995 / pow2 (53 - 52)) =
      (if even (4503599627370497::int) then 4503599627370497 else 4503599627370497 + 1)"
    by (rule round_half_even_tie) (simp add: pow2_def)
  then have r: "round_half_even (9007199254740995 / pow2 (53 - 52)) = 4503599627370498"
    by simp
  have "to_double 9007199254740995 = Some (of_int 4503599627370498 * pow2 (53 - 52))"
    by (rule to_double_pos [OF _ _ _ r]) (simp_all add: pow2_def)
  then show ?thesis by (simp add: pow2_def)
qed

lemma StringToNumber_int:
  "StringNumericLiteral s = Some (of_int n) \<Longrightarrow> \<bar>n\<bar> < 2 ^ 53 \<Longrightarrow>
     StringToNumber s = Some (of_int n)"
  by (simp add: StringToNumber_def to_double_int)

lemma StringToNumber_NaN: "StringNumericLiteral s = None \<Longrightarrow> StringToNumber s = None"
  by (simp add: StringToNumber_def)

lemma literal_1: "StringNumericLiteral ''1'' = Some (of_int 1)"
  by code_simp
lemma literal_2: "StringNumericLiteral ''2'' = Some (of_int 2)"
  by code_simp
lemma literal_999: "StringNumericLiteral ''999'' = Some (of_int 999)"
  by code_simp
lemma literal_blanks: "StringNumericLiteral '' 1 '' = Some (of_int 1)"
  by code_simp
lemma literal_nbsp:
  "StringNumericLiteral ([CHR 0xC2, CHR 0xA0] @ ''1'' @ [CHR 0xE2, CHR 0x80, CHR 0xA8]) =
     Some (of_int 1)"
  by code_simp
lemma literal_nbsp_latin1: "StringNumericLiteral (CHR 0xA0 # ''1'') = Some (of_int 1)"
  by code_simp
lemma literal_plus: "StringNumericLiteral ''+1'' = Some (of_int 1)"
  by code_simp
lemma literal_fraction: "StringNumericLiteral ''1.0'' = Some (of_int 1)"
  by code_simp
lemma literal_exponent: "StringNumericLiteral ''1e1'' = Some (of_int 10)"
  by code_simp
lemma literal_neg_exponent: "StringNumericLiteral ''10e-1'' = Some (of_int 1)"
  by code_simp
lemma literal_hex: "StringNumericLiteral ''0x1F'' = Some (of_int 31)"
  by code_simp
lemma literal_octal: "StringNumericLiteral ''0o17'' = Some (of_int 15)"
  by code_simp
lemma literal_binary: "StringNumericLiteral ''0b11'' = Some (of_int 3)"
  by code_simp
lemma literal_empty: "StringNumericLiteral [] = Some (of_int 0)"
  by code_simp
lemma literal_long:
  "StringNumericLiteral ''1.00000000000000000001'' =
     Some (100000000000000000001 / 100000000000000000000)"
  by code_simp
lemma literal_odd: "StringNumericLiteral ''9007199254740993'' = Some 9007199254740993"
  by code_simp
lemma literal_below_1:
  "StringNumericLiteral ''0.99999999999999999999'' =
     Some (99999999999999999999 / 100000000000000000000)"
  by code_simp

lemma literal_odd_tie: "StringNumericLiteral ''9007199254740995'' = Some 9007199254740995"
  by code_simp

lemma literal_1abc: "StringNumericLiteral ''1abc'' = None"
  by code_simp
lemma literal_new: "StringNumericLiteral ''new'' = None"
  by code_simp
lemma literal_two_words: "StringNumericLiteral ''1 1'' = None"
  by code_simp
lemma literal_Infinity: "StringNumericLiteral ''Infinity'' = None"
  by code_simp
lemma literal_signed_hex: "StringNumericLiteral ''-0x1'' = None"
  by code_simp

lemma StringToNumber_1: "StringToNumber ''1'' = Some 1"
  using StringToNumber_int [OF literal_1] by simp

lemma StringToNumber_2: "StringToNumber ''2'' = Some 2"
  using StringToNumber_int [OF literal_2] by simp

lemma StringToNumber_999: "StringToNumber ''999'' = Some 999"
  using StringToNumber_int [OF literal_999] by simp

lemma loose_eq_1: "loose_eq (JNum 1) (JStr ''1'')"
  by (simp add: StringToNumber_1)

lemma loose_eq_examples:
  "loose_eq (JNum 1) (JStr '' 1 '') \<and>
   loose_eq (JNum 1) (JStr ([CHR 0xC2, CHR 0xA0] @ ''1'' @ [CHR 0xE2, CHR 0x80, CHR 0xA8])) \<and>
   loose_eq (JNum 1) (JStr (CHR 0xA0 # ''1'')) \<and>
   loose_eq (JNum 1) (JStr ''+1'') \<and>
   loose_eq (JNum 1) (JStr ''1.0'') \<and>
   loose_eq (JNum 10) (JStr ''1e1'') \<and>
   loose_eq (JNum 1) (JStr ''10e-1'') \<and>
   loose_eq (JNum 31) (JStr ''0x1F'') \<and>
   loose_eq (JNum 15) (JStr ''0o17'') \<and>
   loose_eq (JNum 3) (JStr ''0b11'') \<and>
   loose_eq (JNum 0) (JStr []) \<and>
   loose_eq (JNum 1) (JStr ''1.00000000000000000001'') \<and>
   loose_eq (JNum 9007199254740992) (JStr ''9007199254740993'') \<and>
   loose_eq (JNum 9007199254740996) (JStr ''9007199254740995'') \<and>
   loose_eq (JNum 1) (JStr ''0.99999999999999999999'') \<and>
   \<not> loose_eq (JNum 1) (JStr ''999'') \<and>
   \<not> loose_eq (JNum 1) (JStr ''1e1'') \<and>
   \<not> loose_eq (JNum 1) (JStr ''1abc'') \<and>
   \<not> loose_eq (JNum 1) (JStr ''new'') \<and>
   \<not> loose_eq (JNum 1) (JStr ''1 1'') \<and>
   \<not> loose_eq (JNum 1) (JStr []) \<and>
   \<not> loose_eq (JNum 0) (JStr ''Infinity'') \<and>
   \<not> loose_eq (JNum (- 1)) (JStr ''-0x1'')"
  using StringToNumber_int [OF literal_blanks] StringToNumber_int [OF literal_nbsp]
    StringToNumber_int [OF literal_nbsp_latin1] StringToNumber_int [OF literal_plus]
    StringToNumber_int [OF literal_fraction] StringToNumber_int [OF literal_exponent]
    StringToNumber_int [OF literal_neg_exponent] StringToNumber_int [OF literal_hex]
    StringToNumber_int [OF literal_octal] StringToNumber_int [OF literal_binary]
    StringToNumber_int [OF literal_empty] StringToNumber_int [OF literal_999]
    StringToNumber_NaN [OF literal_1abc] StringToNumber_NaN [OF literal_new]
    StringToNumber_NaN [OF literal_two_words] StringToNumber_NaN [OF literal_Infinity]
    StringToNumber_NaN [OF literal_signed_hex]
  by (simp add: StringToNumber_def literal_long literal_odd literal_below_1 literal_odd_tie
        to_double_1_eps to_double_tie to_double_below_1 to_double_odd_tie)

subsection \<open>Paths of the declared patterns\<close>

lemma split_path_patterns:
  "split_path ''/'' = []"
  "split_path ''/movies'' = [''movies'']"
  "split_path ''/movies/new'' = [''movies'', ''new'']"
  "split_path ''/movies/:id'' = [''movies'', '':id'']"
  by (simp_all add: split_path_def)

subsection \<open>Adding a movie, and reading the state\<close>

lemma addMovie_object:
  "heap w m = Some ob \<Longrightarrow>
     addMovie m w =
       Inr (ADD_MOVIE m,
            w\<lparr>counter := counter w + 1,
              heap := (heap w)(m \<mapsto> set_prop ob ''id'' (JNum (counter w + 1)))\<rparr>)"
  by (simp add: addMovie_def Let_def)






section \<open>The render chain of the route tree\<close>

text \<open>
  C1, as the claim states it: for a URL such as \<^verbatim>\<open>/movies/new\<close> or \<^verbatim>\<open>/movies/1\<close> the router
  tree gives the chain root, list view, child. The routes of \<^verbatim>\<open>src/index.js\<close> are two
  siblings without children, so these URLs match no route at all.
\<close>

theorem index_routes_no_child_match:
  "router_match index_routes ''/movies/new'' = None \<and>
   router_match index_routes ''/movies/1'' = None"
  by (simp add: router_match_def index_routes_def split_path_def)

text \<open>
  C1, amended: under the nested route tree the lesson text ends with, every URL that
  matches a child route (one whose chain holds \<open>MoviesNew\<close> or \<open>MoviesShow\<close>, as
  \<^verbatim>\<open>/movies/new\<close> and \<^verbatim>\<open>/movies/1\<close> do) gives the chain \<open>App\<close>, \<open>MoviesPage\<close>, child, and such
  a chain is rendered with each component supplied to its parent as the parent's
  children. Under the two flat routes of \<^verbatim>\<open>src/index.js\<close> the URLs \<^verbatim>\<open>/movies/new\<close> and
  \<^verbatim>\<open>/movies/1\<close> match no route.
\<close>

theorem nested_routes_chain:
  "(router_match lesson_routes url = Some (chain, params) \<and> c \<in> set chain \<and>
      (c = MoviesNew \<or> c = MoviesShow) \<longrightarrow> chain = [App, MoviesPage, c]) \<and>
   router_match lesson_routes ''/movies/new'' = Some ([App, MoviesPage, MoviesNew], []) \<and>
   router_match lesson_routes ''/movies/1'' =
     Some ([App, MoviesPage, MoviesShow], [(''id'', JStr ''1'')]) \<and>
   render_chain [App, MoviesPage, c] ps =
     Some (Routed App ps (Some (Routed MoviesPage ps (Some (Routed c ps None))))) \<and>
   router_match index_routes ''/movies/new'' = None \<and>
   router_match index_routes ''/movies/1'' = None"
proof (intro conjI impI)
  assume h: "router_match lesson_routes url = Some (chain, params) \<and> c \<in> set chain \<and>
      (c = MoviesNew \<or> c = MoviesShow)"
  then have "match_routes lesson_routes (split_path url) = Some (chain, params)"
    by (simp add: router_match_def)
  then have "chain = [App] \<or> chain = [App, MoviesPage] \<or>
      chain = [App, MoviesPage, MoviesNew] \<or> chain = [App, MoviesPage, MoviesShow]"
    by (auto simp: lesson_routes_def movies_children_def split_path_patterns
          split: option.splits)
  with h show "chain = [App, MoviesPage, c]" by auto
next
  show "router_match lesson_routes ''/movies/new'' = Some ([App, MoviesPage, MoviesNew], [])"
    by (simp add: router_match_def lesson_routes_def movies_children_def split_path_def)
next
  show "router_match lesson_routes ''/movies/1'' =
     Some ([App, MoviesPage, MoviesShow], [(''id'', JStr ''1'')])"
    by (simp add: router_match_def lesson_routes_def movies_children_def split_path_def)
next
  show "render_chain [App, MoviesPage, c] ps =
     Some (Routed App ps (Some (Routed MoviesPage ps (Some (Routed c ps None)))))"
    by simp
next
  show "router_match index_routes ''/movies/new'' = None"
    by (simp add: router_match_def index_routes_def split_path_def)
next
  show "router_match index_routes ''/movies/1'' = None"
    by (simp add: router_match_def index_routes_def split_path_def)
qed

theorem nested_routes_chain_witness:
  "router_match lesson_routes ''/movies/1'' =
     Some ([App, MoviesPage, MoviesShow], [(''id'', JStr ''1'')]) \<and>
   MoviesShow \<in> set [App, MoviesPage, MoviesShow]"
  using nested_routes_chain
    [of "''/movies/1''" "[App, MoviesPage, MoviesShow]" "[(''id'', JStr ''1'')]" MoviesShow]
  by simp

section \<open>The list view's children slot\<close>

text \<open>
  C2, as the claim states it: the list view's render output is the movie list followed
  by the matched child. The render method of \<^verbatim>\<open>src/containers/MoviesPage.js\<close> does not
  read \<^verbatim>\<open>this.props.children\<close>: given a child, its output is the movie list alone.
\<close>

theorem MoviesPage_render_drops_children:
  "MoviesPage_render
     \<lparr>movies_prop = [[(''id'', JNum 1), (''title'', JStr ''A River Runs Through It'')]], children = Some (Routed MoviesNew [] None)\<rparr> =
   Html ''div'' [] [MoviesList [[(''id'', JNum 1), (''title'', JStr ''A River Runs Through It'')]]] \<and>
   MoviesPage_render
     \<lparr>movies_prop = [[(''id'', JNum 1), (''title'', JStr ''A River Runs Through It'')]], children = Some (Routed MoviesNew [] None)\<rparr> \<noteq>
   Html ''div'' [] [MoviesList [[(''id'', JNum 1), (''title'', JStr ''A River Runs Through It'')]], Routed MoviesNew [] None]"
  by (simp add: MoviesPage_render_def)

text \<open>
  C2, amended: the render method as the lesson text updates it outputs the movie list
  followed directly by the child the router supplied (and the movie list alone when
  there is none); the render method in \<^verbatim>\<open>src/containers/MoviesPage.js\<close> outputs the movie
  list alone whatever the children are.
\<close>

theorem MoviesPage_render_children_slot:
  "MoviesPage_render \<lparr>movies_prop = ms, children = c\<rparr> = Html ''div'' [] [MoviesList ms] \<and>
   MoviesPage_render_lesson \<lparr>movies_prop = ms, children = Some e\<rparr> =
     Html ''div'' [] [MoviesList ms, e] \<and>
   MoviesPage_render_lesson \<lparr>movies_prop = ms, children = None\<rparr> =
     Html ''div'' [] [MoviesList ms]"
  by (simp add: MoviesPage_render_def MoviesPage_render_lesson_def slot_def)

section \<open>Route matching order\<close>

text \<open>
  C3: with the sibling patterns \<^verbatim>\<open>/movies/new\<close> and \<^verbatim>\<open>/movies/:id\<close> declared in that order,
  the path \<^verbatim>\<open>/movies/new\<close> selects the literal pattern and its creation view; with the
  declaration order reversed the same path selects \<^verbatim>\<open>/movies/:id\<close> and captures the text
  \<^verbatim>\<open>new\<close> as the \<^verbatim>\<open>id\<close> parameter.
\<close>

theorem literal_before_parameter:
  "router_match movies_children ''/movies/new'' = Some ([MoviesNew], []) \<and>
   router_match (rev movies_children) ''/movies/new'' =
     Some ([MoviesShow], [(''id'', JStr ''new'')])"
  by (simp add: router_match_def movies_children_def split_path_def)

section \<open>The detail view\<close>

text \<open>
  C4: the detail view is claimed to render for every captured id without raising. The
  lookup itself always completes, and a record that is found is rendered with its
  title; but for an id that no record has, \<^verbatim>\<open>find\<close> gives \<^verbatim>\<open>undefined\<close> and the render
  reads \<^verbatim>\<open>props.movie.title\<close> of it, which raises. Evaluated on the seed state: the id
  \<^verbatim>\<open>999\<close> raises a TypeError, the id \<^verbatim>\<open>1\<close> renders the title.
\<close>

theorem detail_view_raises_when_absent:
  "MoviesShow_connected \<lparr>movies = [[(''id'', JNum 1), (''title'', JStr ''A River Runs Through It'')]]\<rparr> [(''id'', JStr ''999'')] = Inl TypeError \<and>
   MoviesShow_connected \<lparr>movies = [[(''id'', JNum 1), (''title'', JStr ''A River Runs Through It'')]]\<rparr> [(''id'', JStr ''1'')] =
     Inr (Html ''div'' [(''className'', ''col-md-8'')]
            [Text (JStr ''A River Runs Through It'')])"
  by (simp add: MoviesShow_connected_def MoviesShow_mapStateToProps_def MoviesShow_render_def
        get_prop_def StringToNumber_1 StringToNumber_999)

text \<open>
  C5: the lookup compares each stored id with the captured text by \<^verbatim>\<open>==\<close>, that is by
  numeric value. For every integer \<open>n\<close> (a number the language holds exactly) the text
  of \<open>n\<close> is equal under \<^verbatim>\<open>==\<close> to the number \<open>n\<close> and to no other number; so, the stored
  ids being numbers, looking up the text of \<open>n\<close> gives the first record whose id is
  \<open>n\<close>, none when no record has that id, and the record with id \<open>n\<close> when ids are
  pairwise distinct. In particular the string \<^verbatim>\<open>1\<close> finds the record with id 1, though
  \<^verbatim>\<open>1 === '1'\<close> is false. Other spellings of a number compare by their value as well
  (surrounding white space, a sign, a fraction, an exponent, a radix prefix, a value
  that rounds to the id), and text that is no number matches no id.
\<close>

theorem detail_lookup_by_value:
  assumes "\<bar>n\<bar> < 2 ^ 53"
    and "\<forall>r \<in> set (movies st). \<exists>k. get_prop r ''id'' = JNum k"
  shows "(\<forall>k. loose_eq (JNum k) (JStr (Number_toString n)) \<longleftrightarrow> k = n) \<and>
         (MoviesShow_mapStateToProps st [(''id'', JStr (Number_toString n))] = None \<longleftrightarrow>
            (\<forall>r \<in> set (movies st). get_prop r ''id'' \<noteq> JNum n)) \<and>
         (\<forall>r. MoviesShow_mapStateToProps st [(''id'', JStr (Number_toString n))] = Some r \<longleftrightarrow>
            (\<exists>i < length (movies st).
               get_prop (movies st ! i) ''id'' = JNum n \<and> r = movies st ! i \<and>
               (\<forall>j < i. get_prop (movies st ! j) ''id'' \<noteq> JNum n))) \<and>
         (\<forall>m. m \<in> set (movies st) \<and> get_prop m ''id'' = JNum n \<and>
              distinct (map (\<lambda>r. get_prop r ''id'') (movies st)) \<longrightarrow>
              MoviesShow_mapStateToProps st [(''id'', JStr (Number_toString n))] = Some m) \<and>
         Number_toString 1 = ''1'' \<and>
         loose_eq (JNum 1) (JStr ''1'') \<and> \<not> strict_eq (JNum 1) (JStr ''1'') \<and>
         loose_eq (JNum 1) (JStr '' 1 '') \<and>
         loose_eq (JNum 1)
           (JStr ([CHR 0xC2, CHR 0xA0] @ ''1'' @ [CHR 0xE2, CHR 0x80, CHR 0xA8])) \<and>
         loose_eq (JNum 1) (JStr (CHR 0xA0 # ''1'')) \<and>
         loose_eq (JNum 1) (JStr ''+1'') \<and>
         loose_eq (JNum 1) (JStr ''1.0'') \<and>
         loose_eq (JNum 10) (JStr ''1e1'') \<and>
         loose_eq (JNum 1) (JStr ''10e-1'') \<and>
         loose_eq (JNum 31) (JStr ''0x1F'') \<and>
         loose_eq (JNum 15) (JStr ''0o17'') \<and>
         loose_eq (JNum 3) (JStr ''0b11'') \<and>
         loose_eq (JNum 0) (JStr []) \<and>
         loose_eq (JNum 1) (JStr ''1.00000000000000000001'') \<and>
         loose_eq (JNum 9007199254740992) (JStr ''9007199254740993'') \<and>
         loose_eq (JNum 9007199254740996) (JStr ''9007199254740995'') \<and>
         loose_eq (JNum 1) (JStr ''0.99999999999999999999'') \<and>
         \<not> loose_eq (JNum 1) (JStr ''999'') \<and>
         \<not> loose_eq (JNum 1) (JStr ''1e1'') \<and>
         \<not> loose_eq (JNum 1) (JStr ''1abc'') \<and>
         \<not> loose_eq (JNum 1) (JStr ''new'') \<and>
         \<not> loose_eq (JNum 1) (JStr ''1 1'') \<and>
         \<not> loose_eq (JNum 1) (JStr []) \<and>
         \<not> loose_eq (JNum 0) (JStr ''Infinity'') \<and>
         \<not> loose_eq (JNum (- 1)) (JStr ''-0x1'')"
proof -
  let ?ps = "[(''id'', JStr (Number_toString n))]"
  let ?P = "\<lambda>movie. loose_eq (get_prop movie ''id'') (get_prop ?ps ''id'')"
  let ?Q = "\<lambda>movie. get_prop movie ''id'' = JNum n"
  have value_eq: "\<forall>k. loose_eq (JNum k) (JStr (Number_toString n)) \<longleftrightarrow> k = n"
    by (intro allI) (rule loose_eq_toString [OF assms(1)])
  have param: "get_prop ?ps ''id'' = JStr (Number_toString n)"
    by (simp add: get_prop_def)
  have PQ: "?P r \<longleftrightarrow> ?Q r" if "r \<in> set (movies st)" for r
  proof -
    from that assms(2) obtain k where k: "get_prop r ''id'' = JNum k" by blast
    show ?thesis unfolding param k using value_eq by simp
  qed
  have lookup: "MoviesShow_mapStateToProps st ?ps = find ?Q (movies st)"
    unfolding MoviesShow_mapStateToProps_def by (rule find_cong) (simp_all add: PQ)
  have none: "MoviesShow_mapStateToProps st ?ps = None \<longleftrightarrow>
      (\<forall>r \<in> set (movies st). get_prop r ''id'' \<noteq> JNum n)"
    unfolding lookup find_None_iff by blast
  have some: "\<forall>r. MoviesShow_mapStateToProps st ?ps = Some r \<longleftrightarrow>
      (\<exists>i < length (movies st).
         get_prop (movies st ! i) ''id'' = JNum n \<and> r = movies st ! i \<and>
         (\<forall>j < i. get_prop (movies st ! j) ''id'' \<noteq> JNum n))"
    unfolding lookup find_Some_iff by blast
  have that_record: "\<forall>m. m \<in> set (movies st) \<and> get_prop m ''id'' = JNum n \<and>
      distinct (map (\<lambda>r. get_prop r ''id'') (movies st)) \<longrightarrow>
      MoviesShow_mapStateToProps st ?ps = Some m"
  proof (intro allI impI)
    fix m
    assume h: "m \<in> set (movies st) \<and> get_prop m ''id'' = JNum n \<and>
      distinct (map (\<lambda>r. get_prop r ''id'') (movies st))"
    then have "find ?Q (movies st) \<noteq> None" by (auto simp: find_None_iff)
    then obtain r where r: "find ?Q (movies st) = Some r" by blast
    then have rin: "r \<in> set (movies st)" and rQ: "?Q r"
      by (auto simp: find_Some_iff)
    from h rQ have same: "get_prop r ''id'' = get_prop m ''id''" by simp
    from h have inj: "inj_on (\<lambda>r. get_prop r ''id'') (set (movies st))"
      by (simp add: distinct_map)
    from h have min: "m \<in> set (movies st)" by simp
    have "r = m" using inj same rin min by (rule inj_onD)
    with r show "MoviesShow_mapStateToProps st ?ps = Some m" by (simp add: lookup)
  qed
  have one: "Number_toString 1 = ''1''"
    by code_simp
  have strict: "\<not> strict_eq (JNum 1) (JStr ''1'')" by (simp add: strict_eq_def)
  show ?thesis
    using value_eq none some that_record one loose_eq_1 strict loose_eq_examples
    by (simp only: simp_thms)
qed

theorem detail_lookup_by_value_witness:
  "\<bar>2\<bar> < (2::int) ^ 53 \<and> Number_toString 2 = ''2'' \<and>
   list_all (\<lambda>r. get_prop r ''id'' = JNum 1 \<or> get_prop r ''id'' = JNum 2)
     [[(''id'', JNum 1), (''title'', JStr ''A River Runs Through It'')], [(''title'', JStr ''Inception''), (''id'', JNum 2)], [(''title'', JStr ''Heat''), (''id'', JNum 2)]] \<and>
   MoviesShow_mapStateToProps \<lparr>movies = [[(''id'', JNum 1), (''title'', JStr ''A River Runs Through It'')], [(''title'', JStr ''Inception''), (''id'', JNum 2)], [(''title'', JStr ''Heat''), (''id'', JNum 2)]]\<rparr> [(''id'', JStr ''2'')] =
     Some [(''title'', JStr ''Inception''), (''id'', JNum 2)]"
proof -
  have two: "Number_toString 2 = ''2''"
    by code_simp
  have ids: "list_all (\<lambda>r. get_prop r ''id'' = JNum 1 \<or> get_prop r ''id'' = JNum 2)
      [[(''id'', JNum 1), (''title'', JStr ''A River Runs Through It'')], [(''title'', JStr ''Inception''), (''id'', JNum 2)], [(''title'', JStr ''Heat''), (''id'', JNum 2)]]"
    by (simp add: get_prop_def)
  then have numeric: "\<forall>r \<in> set (movies \<lparr>movies = [[(''id'', JNum 1), (''title'', JStr ''A River Runs Through It'')], [(''title'', JStr ''Inception''), (''id'', JNum 2)], [(''title'', JStr ''Heat''), (''id'', JNum 2)]]\<rparr>).
      \<exists>k. get_prop r ''id'' = JNum k"
    by (auto simp: get_prop_def)
  have small: "\<bar>2\<bar> < (2::int) ^ 53" by simp
  from detail_lookup_by_value [OF small numeric]
  have "\<forall>r. MoviesShow_mapStateToProps \<lparr>movies = [[(''id'', JNum 1), (''title'', JStr ''A River Runs Through It'')], [(''title'', JStr ''Inception''), (''id'', JNum 2)], [(''title'', JStr ''Heat''), (''id'', JNum 2)]]\<rparr>
           [(''id'', JStr (Number_toString 2))] = Some r \<longleftrightarrow>
      (\<exists>i < length (movies \<lparr>movies = [[(''id'', JNum 1), (''title'', JStr ''A River Runs Through It'')], [(''title'', JStr ''Inception''), (''id'', JNum 2)], [(''title'', JStr ''Heat''), (''id'', JNum 2)]]\<rparr>).
         get_prop (movies \<lparr>movies = [[(''id'', JNum 1), (''title'', JStr ''A River Runs Through It'')], [(''title'', JStr ''Inception''), (''id'', JNum 2)], [(''title'', JStr ''Heat''), (''id'', JNum 2)]]\<rparr> ! i) ''id'' = JNum 2 \<and>
         r = movies \<lparr>movies = [[(''id'', JNum 1), (''title'', JStr ''A River Runs Through It'')], [(''title'', JStr ''Inception''), (''id'', JNum 2)], [(''title'', JStr ''Heat''), (''id'', JNum 2)]]\<rparr> ! i \<and>
         (\<forall>j < i. get_prop (movies \<lparr>movies = [[(''id'', JNum 1), (''title'', JStr ''A River Runs Through It'')], [(''title'', JStr ''Inception''), (''id'', JNum 2)], [(''title'', JStr ''Heat''), (''id'', JNum 2)]]\<rparr> ! j) ''id'' \<noteq> JNum 2))"
    by blast
  then have "MoviesShow_mapStateToProps \<lparr>movies = [[(''id'', JNum 1), (''title'', JStr ''A River Runs Through It'')], [(''title'', JStr ''Inception''), (''id'', JNum 2)], [(''title'', JStr ''Heat''), (''id'', JNum 2)]]\<rparr>
      [(''id'', JStr ''2'')] = Some [(''title'', JStr ''Inception''), (''id'', JNum 2)]"
    unfolding two
    by (simp add: get_prop_def) (rule exI [of _ 1], simp)
  with two ids small show ?thesis by simp
qed

section \<open>Adding movies\<close>




section \<open>Submitting the creation form\<close>



section \<open>The list request\<close>

text \<open>
  C8: for every current state, the "request movie list" intent replaces \<open>movies\<close> by the
  list the intent carries; the list \<open>fetchMovies\<close> supplies is always the one record with
  id 1 and title "A River Runs Through It"; and mounting the list view dispatches that
  intent exactly once, changing nothing else, after which the state reads as that one
  record.
\<close>

theorem request_movie_list:
  "reducer st (FETCH_MOVIES ms) = st\<lparr>movies := ms\<rparr> \<and>
   fetchMovies = FETCH_MOVIES [Literal [(''id'', JNum 1), (''title'', JStr ''A River Runs Through It'')]] \<and>
   store (componentDidMount w) = (store w)\<lparr>movies := [Literal [(''id'', JNum 1), (''title'', JStr ''A River Runs Through It'')]]\<rparr> \<and>
   getState (componentDidMount w) = Some \<lparr>movies = [[(''id'', JNum 1), (''title'', JStr ''A River Runs Through It'')]]\<rparr> \<and>
   effects (componentDidMount w) = effects w @ [Dispatch fetchMovies] \<and>
   heap (componentDidMount w) = heap w \<and> counter (componentDidMount w) = counter w"
  by (simp add: componentDidMount_def props_fetchMovies_def dispatch_def fetchMovies_def
        getState_def)

section \<open>The payload of \<open>addMovie\<close>\<close>

text \<open>
  C9: for every payload object, \<open>addMovie\<close> returns an intent whose movie is that same
  object (the same reference, not a copy), having assigned the incremented counter to
  the object's \<^verbatim>\<open>id\<close> in place; the counter grows by one and nothing else changes. A second
  call, on a payload with the same contents (or on the same object again), gives an
  intent whose movie has the next id, different from the first.
\<close>

theorem addMovie_mutates_payload:
  assumes "heap w m1 = Some ob" and "heap w m2 = Some ob"
  shows "\<exists>w1 w2 ob2.
           addMovie m1 w = Inr (ADD_MOVIE m1, w1) \<and>
           heap w1 m1 = Some (set_prop ob ''id'' (JNum (counter w + 1))) \<and>
           get_prop (set_prop ob ''id'' (JNum (counter w + 1))) ''id'' = JNum (counter w + 1) \<and>
           (\<forall>a. a \<noteq> m1 \<longrightarrow> heap w1 a = heap w a) \<and>
           counter w1 = counter w + 1 \<and> store w1 = store w \<and> effects w1 = effects w \<and>
           addMovie m2 w1 = Inr (ADD_MOVIE m2, w2) \<and>
           heap w2 m2 = Some ob2 \<and>
           get_prop ob2 ''id'' = JNum (counter w + 2) \<and>
           get_prop ob2 ''id'' \<noteq> get_prop (set_prop ob ''id'' (JNum (counter w + 1))) ''id''"
proof -
  define w1 where "w1 = w\<lparr>counter := counter w + 1,
              heap := (heap w)(m1 \<mapsto> set_prop ob ''id'' (JNum (counter w + 1)))\<rparr>"
  have a1: "addMovie m1 w = Inr (ADD_MOVIE m1, w1)"
    using assms(1) by (simp add: addMovie_object w1_def)
  obtain ob1 where ob1: "heap w1 m2 = Some ob1"
    using assms(2) by (cases "m2 = m1") (simp_all add: w1_def)
  define w2 where "w2 = w1\<lparr>counter := counter w1 + 1,
              heap := (heap w1)(m2 \<mapsto> set_prop ob1 ''id'' (JNum (counter w1 + 1)))\<rparr>"
  have a2: "addMovie m2 w1 = Inr (ADD_MOVIE m2, w2)"
    using ob1 by (simp add: addMovie_object w2_def)
  have c1: "counter w1 = counter w + 1" by (simp add: w1_def)
  have "heap w2 m2 = Some (set_prop ob1 ''id'' (JNum (counter w + 2)))"
    by (simp add: w2_def c1 add.commute)
  moreover have "get_prop (set_prop ob1 ''id'' (JNum (counter w + 2))) ''id'' =
      JNum (counter w + 2)"
    by (rule get_set_prop_same)
  moreover have "heap w1 m1 = Some (set_prop ob ''id'' (JNum (counter w + 1)))"
    by (simp add: w1_def)
  moreover have "\<forall>a. a \<noteq> m1 \<longrightarrow> heap w1 a = heap w a" by (simp add: w1_def)
  moreover have "store w1 = store w" "effects w1 = effects w" by (simp_all add: w1_def)
  ultimately show ?thesis using a1 a2 c1 by (simp add: get_set_prop_same)
qed

theorem addMovie_mutates_payload_witness:
  "heap example_world 0 = Some [(''title'', JStr ''Inception'')] \<and>
   heap example_world 1 = Some [(''title'', JStr ''Inception'')] \<and>
   map_sum id (\<lambda>(a, w). (a, heap w 0, counter w)) (addMovie 0 example_world) =
     Inr (ADD_MOVIE 0, Some [(''title'', JStr ''Inception''), (''id'', JNum 2)], 2)"
  using addMovie_mutates_payload [of example_world 0 "[(''title'', JStr ''Inception'')]" 1]
  by (auto simp add: example_world_def addMovie_def set_prop_def)

section \<open>The list view's export\<close>

text \<open>
  C10: evaluating the default export of the list view's module raises a reference
  error: it applies \<^verbatim>\<open>connect(mapStateToProps, mapDispatchToProps)\<close> to the identifier
  \<^verbatim>\<open>MoviePage\<close>, which the module does not bind (its class is \<^verbatim>\<open>MoviesPage\<close>), so in every
  global environment that does not define \<^verbatim>\<open>MoviePage\<close> itself nothing is exported.
\<close>

theorem MoviesPage_export_raises:
  "''MoviePage'' \<notin> globals \<Longrightarrow>
     MoviesPage_export_default globals = Inl (ReferenceError ''MoviePage'') \<and>
     ''MoviesPage'' \<in> set MoviesPage_module_scope \<and>
     ''MoviePage'' \<notin> set MoviesPage_module_scope"
  by (simp add: MoviesPage_export_default_def export_default_def resolve_def
        MoviesPage_module_scope_def)

theorem MoviesPage_export_raises_witness:
  "''MoviePage'' \<notin> {''window'', ''document''} \<and>
   MoviesPage_export_default {''window'', ''document''} = Inl (ReferenceError ''MoviePage'')"
  using MoviesPage_export_raises [of "{''window'', ''document''}"] by simp

end
